theory Spec2Isabelle
  imports Complex_Main
begin

section \<open>Data model: the tables of server/index.js\<close>

text \<open>
  The store is the SQLite database created at the top of \<^verbatim>\<open>server/index.js\<close>. Every table is
  a list of rows in insertion (rowid) order. Columns are named \<^verbatim>\<open>table_column\<close> with a one-letter
  table prefix (\<^verbatim>\<open>users.cashback\<close> is \<open>u_cashback\<close>). A nullable column is an \<open>option\<close>.
  REAL columns and JavaScript numbers are exact rationals, except in the one place where a
  handler branches on a rounded value: the amount comparison of the payment verifier, which
  is modelled in double precision. The foreign keys of the schema are enforced: the rows
  of a store satisfy them, and an insert built from request data fails when the user it
  names does not exist.
\<close>

datatype level = none | bronze | silver | gold | platinum

record user_row =
  u_id :: nat
  u_telegram_id :: string
  u_name :: string
  u_level :: level
  u_total_spent :: rat
  u_cashback :: rat
  u_referral_code :: string
  u_referred_by :: "nat option"
  u_referral_earnings :: rat
  u_trc20_wallet :: "string option"

record order_row =
  o_id :: string
  o_user_id :: nat
  o_service :: string
  o_niche :: string
  o_base_price :: "rat option"
  o_discount :: "rat option"
  o_cashback_used :: "rat option"
  o_total :: "rat option"
  o_cashback_earned :: "rat option"
  o_status :: string
  o_tx_hash :: "string option"
  o_payment_method :: "string option"
  o_reviewed :: bool
  o_created_at :: nat
  o_promo_code :: "string option"
  o_discount_amount :: "rat option"
  o_subtotal :: "rat option"

text \<open>
  The description column of \<^verbatim>\<open>cashback_history\<close> holds one of four texts, each built from a
  fixed phrase and an identifier; the constructor stands for the phrase.
\<close>

datatype description =
    Order_payment string      \<comment> \<open>order creation, redeemed cashback, with the order id\<close>
  | Order_cashback "string option"  \<comment> \<open>payment confirmation, with the invoice's order id\<close>
  | Review_bonus
  | Payout nat                \<comment> \<open>withdrawal processing, with the withdrawal id\<close>

record history_row =
  h_user_id :: nat
  h_amount :: rat
  h_description :: description

record referral_row =
  r_referrer_id :: nat
  r_referred_id :: nat
  r_earnings :: rat

datatype notice =
    Order_created string
  | New_level level
  | Referral_bonus rat string
  | Payment_confirmed string
  | Withdrawal_requested rat
  | Withdrawal_done rat

record notification_row =
  n_user_id :: nat
  n_title :: notice

record promo_row =
  p_id :: nat
  p_code :: string
  p_discount_percent :: int
  p_max_uses :: "int option"
  p_current_uses :: int
  p_expires_at :: "nat option"
  p_is_active :: bool

record promo_use_row =
  pu_promo_id :: nat
  pu_user_id :: nat
  pu_order_id :: string

record invoice_row =
  i_id :: string
  i_order_id :: "string option"
  i_user_id :: nat
  i_amount :: rat
  i_final_amount :: rat
  i_tx_hash :: "string option"
  i_status :: string
  i_paid_at :: "nat option"

record withdrawal_row =
  w_id :: nat
  w_user_id :: nat
  w_amount :: rat
  w_wallet_address :: string
  w_type :: string
  w_status :: string
  w_tx_hash :: "string option"
  w_processed_at :: "nat option"

record db =
  users :: "user_row list"
  orders :: "order_row list"
  cashback_history :: "history_row list"
  referrals :: "referral_row list"
  notifications :: "notification_row list"
  promo_codes :: "promo_row list"
  promo_uses :: "promo_use_row list"
  invoices :: "invoice_row list"
  withdrawals :: "withdrawal_row list"

text \<open>An HTTP answer: the status code and the JSON body.\<close>

datatype promo_reason = Promo_not_found | Promo_expired | Promo_exhausted

datatype body =
    Success                       \<comment> \<open>\<^verbatim>\<open>{success: true}\<close>\<close>
  | Success_order string          \<comment> \<open>\<^verbatim>\<open>{success: true, orderId}\<close>\<close>
  | Success_withdrawal nat        \<comment> \<open>\<^verbatim>\<open>{success: true, withdrawalId}\<close>\<close>
  | Error string                  \<comment> \<open>\<^verbatim>\<open>{error: ...}\<close>\<close>
  | Promo_valid string int        \<comment> \<open>\<^verbatim>\<open>{valid: true, code, discount}\<close>\<close>
  | Promo_invalid promo_reason    \<comment> \<open>\<^verbatim>\<open>{valid: false, error}\<close>\<close>
  | Promo_applied int             \<comment> \<open>\<^verbatim>\<open>{success: true, discount}\<close>\<close>
  | Promo_refused promo_reason    \<comment> \<open>\<^verbatim>\<open>{success: false, error}\<close>\<close>
  | Success_bonus rat             \<comment> \<open>\<^verbatim>\<open>{success: true, bonus}\<close>\<close>

datatype reply = Reply nat body

section \<open>Queries and updates\<close>

definition get_user :: "nat \<Rightarrow> db \<Rightarrow> user_row option" where
  \<comment> \<open>\<^verbatim>\<open>SELECT * FROM users WHERE id = ?\<close>\<close>
  "get_user uid s = find (\<lambda>u. u_id u = uid) (users s)"

definition get_user_by_telegram :: "string \<Rightarrow> db \<Rightarrow> user_row option" where
  \<comment> \<open>\<^verbatim>\<open>SELECT * FROM users WHERE telegram_id = ?\<close>\<close>
  "get_user_by_telegram tg s = find (\<lambda>u. u_telegram_id u = tg) (users s)"

definition update_user :: "nat \<Rightarrow> (user_row \<Rightarrow> user_row) \<Rightarrow> db \<Rightarrow> db" where
  \<comment> \<open>\<^verbatim>\<open>UPDATE users SET ... WHERE id = ?\<close>\<close>
  "update_user uid f s = s\<lparr>users := map (\<lambda>u. if u_id u = uid then f u else u) (users s)\<rparr>"

definition add_history :: "nat \<Rightarrow> rat \<Rightarrow> description \<Rightarrow> db \<Rightarrow> db" where
  \<comment> \<open>\<^verbatim>\<open>INSERT INTO cashback_history (user_id, amount, description)\<close>\<close>
  "add_history uid a d s =
     s\<lparr>cashback_history := cashback_history s @
        [\<lparr>h_user_id = uid, h_amount = a, h_description = d\<rparr>]\<rparr>"

definition notify :: "nat \<Rightarrow> notice \<Rightarrow> db \<Rightarrow> db" where
  \<comment> \<open>\<^verbatim>\<open>INSERT INTO notifications (user_id, title, message)\<close>\<close>
  "notify uid t s = s\<lparr>notifications := notifications s @ [\<lparr>n_user_id = uid, n_title = t\<rparr>]\<rparr>"

text \<open>What a client observes of a user: the balances as \<^verbatim>\<open>GET /api/user\<close> reports them.\<close>

definition cashback_of :: "nat \<Rightarrow> db \<Rightarrow> rat option" where
  "cashback_of uid s = map_option u_cashback (get_user uid s)"

definition total_spent_of :: "nat \<Rightarrow> db \<Rightarrow> rat option" where
  "total_spent_of uid s = map_option u_total_spent (get_user uid s)"

definition referral_earnings_of :: "nat \<Rightarrow> db \<Rightarrow> rat option" where
  "referral_earnings_of uid s = map_option u_referral_earnings (get_user uid s)"

definition level_of :: "nat \<Rightarrow> db \<Rightarrow> level option" where
  "level_of uid s = map_option u_level (get_user uid s)"

definition history_of :: "nat \<Rightarrow> db \<Rightarrow> history_row list" where
  \<comment> \<open>\<^verbatim>\<open>SELECT * FROM cashback_history WHERE user_id = ?\<close>\<close>
  "history_of uid s = filter (\<lambda>h. h_user_id h = uid) (cashback_history s)"

section \<open>Create order: POST /api/orders\<close>

text \<open>
  The request body. Fields the handler binds without a default are present in a well-formed
  request; fields it reads through \<^verbatim>\<open>||\<close> or a comparison may be absent.
\<close>

record order_body =
  b_id :: "string option"
  b_service :: string
  b_niche :: string
  b_basePrice :: rat
  b_discount :: rat
  b_cashbackUsed :: "rat option"
  b_total :: rat
  b_cashbackEarned :: rat
  b_txHash :: "string option"
  b_paymentMethod :: "string option"
  b_promoCode :: "string option"
  b_promoDiscount :: "rat option"
  b_referralDiscount :: "rat option"

definition digit_char :: "nat \<Rightarrow> char" where
  "digit_char d = char_of (48 + d)"

fun show_nat :: "nat \<Rightarrow> string" where
  "show_nat n = (if n < 10 then [digit_char n] else show_nat (n div 10) @ [digit_char (n mod 10)])"

definition or_zero :: "rat option \<Rightarrow> rat" where
  \<comment> \<open>\<^verbatim>\<open>x || 0\<close> on a number that may be absent\<close>
  "or_zero x = (case x of None \<Rightarrow> 0 | Some v \<Rightarrow> v)"

definition or_null :: "string option \<Rightarrow> string option" where
  \<comment> \<open>\<^verbatim>\<open>x || null\<close> on a string that may be absent: the empty string is falsy\<close>
  "or_null x = (case x of None \<Rightarrow> None | Some v \<Rightarrow> if v = [] then None else Some v)"

definition new_order_id :: "nat \<Rightarrow> order_body \<Rightarrow> string" where
  \<comment> \<open>\<^verbatim>\<open>order.id || ('ORD' + Date.now())\<close>\<close>
  "new_order_id now b = (case or_null (b_id b) of Some i \<Rightarrow> i | None \<Rightarrow> ''ORD'' @ show_nat now)"

definition insert_order :: "nat \<Rightarrow> nat \<Rightarrow> string \<Rightarrow> order_body \<Rightarrow> order_row" where
  "insert_order now uid oid b =
     \<lparr>o_id = oid, o_user_id = uid, o_service = b_service b, o_niche = b_niche b,
      o_base_price = Some (b_basePrice b), o_discount = Some (b_discount b),
      o_cashback_used = Some (or_zero (b_cashbackUsed b)), o_total = Some (b_total b),
      o_cashback_earned = Some (b_cashbackEarned b), o_status = ''pending'',
      o_tx_hash = or_null (b_txHash b), o_payment_method = or_null (b_paymentMethod b),
      o_reviewed = False, o_created_at = now, o_promo_code = or_null (b_promoCode b),
      o_discount_amount = Some (or_zero (b_promoDiscount b) + or_zero (b_referralDiscount b)),
      o_subtotal = Some (b_basePrice b)\<rparr>"

definition deduct_used_cashback :: "nat \<Rightarrow> string \<Rightarrow> order_body \<Rightarrow> db \<Rightarrow> db" where
  \<comment> \<open>\<^verbatim>\<open>if (order.cashbackUsed > 0) { UPDATE users SET cashback = cashback - ?; INSERT ... }\<close>\<close>
  "deduct_used_cashback uid oid b s =
     (case b_cashbackUsed b of
        None \<Rightarrow> s
      | Some c \<Rightarrow>
          if c > 0
          then add_history uid (- c) (Order_payment oid)
                 (update_user uid (\<lambda>u. u\<lparr>u_cashback := u_cashback u - c\<rparr>) s)
          else s)"

definition create_order :: "nat \<Rightarrow> string \<Rightarrow> order_body \<Rightarrow> db \<Rightarrow> reply \<times> db" where
  "create_order now tg b s =
     (case get_user_by_telegram tg s of
        None \<Rightarrow> (Reply 404 (Error ''User not found''), s)
      | Some user \<Rightarrow>
          let orderId = new_order_id now b in
          if orderId \<in> set (map o_id (orders s))
          then (Reply 500 (Error ''Server error''), s)  \<comment> \<open>PRIMARY KEY violation, caught\<close>
          else
            let s1 = s\<lparr>orders := orders s @ [insert_order now (u_id user) orderId b]\<rparr>;
                s2 = deduct_used_cashback (u_id user) orderId b s1;
                s3 = notify (u_id user) (Order_created orderId) s2
            in (Reply 200 (Success_order orderId), s3))"

section \<open>Reward engine helpers\<close>

definition level_for :: "rat \<Rightarrow> level" where
  \<comment> \<open>the threshold chain of \<^verbatim>\<open>updateUserLevel\<close>\<close>
  "level_for spent =
     (if spent \<ge> 10000 then platinum
      else if spent \<ge> 1000 then gold
      else if spent \<ge> 500 then silver
      else if spent \<ge> 100 then bronze
      else none)"

definition updateUserLevel :: "nat \<Rightarrow> db \<Rightarrow> db" where
  "updateUserLevel userId s =
     (case get_user userId s of
        None \<Rightarrow> s
      | Some user \<Rightarrow>
          let newLevel = level_for (u_total_spent user) in
          if newLevel \<noteq> u_level user \<and> newLevel \<noteq> none
          then notify userId (New_level newLevel)
                 (update_user userId (\<lambda>u. u\<lparr>u_level := newLevel\<rparr>) s)
          else s)"

definition orders_of :: "nat \<Rightarrow> db \<Rightarrow> order_row list" where
  \<comment> \<open>\<^verbatim>\<open>SELECT * FROM orders WHERE user_id = ?\<close>\<close>
  "orders_of uid s = filter (\<lambda>row. o_user_id row = uid) (orders s)"

fun earliest :: "order_row list \<Rightarrow> order_row option" where
  \<comment> \<open>\<^verbatim>\<open>ORDER BY created_at LIMIT 1\<close>; on a tie the earlier row\<close>
  "earliest [] = None"
| "earliest (x # xs) =
     (case earliest xs of
        None \<Rightarrow> Some x
      | Some y \<Rightarrow> if o_created_at x \<le> o_created_at y then Some x else Some y)"

definition truthy :: "rat option \<Rightarrow> bool" where
  \<comment> \<open>JavaScript truthiness of a nullable number: \<^verbatim>\<open>null\<close> and \<^verbatim>\<open>0\<close> are falsy\<close>
  "truthy x = (case x of None \<Rightarrow> False | Some v \<Rightarrow> v \<noteq> 0)"

definition baseAmount :: "order_row \<Rightarrow> rat option" where
  \<comment> \<open>\<^verbatim>\<open>firstOrder.subtotal || firstOrder.base_price || firstOrder.total\<close>\<close>
  "baseAmount ord =
     (if truthy (o_subtotal ord) then o_subtotal ord
      else if truthy (o_base_price ord) then o_base_price ord
      else o_total ord)"

definition referralAmount :: "order_row \<Rightarrow> rat" where
  \<comment> \<open>\<^verbatim>\<open>baseAmount * 0.25\<close>; \<^verbatim>\<open>null\<close> counts as \<^verbatim>\<open>0\<close> in the product\<close>
  "referralAmount ord = or_zero (baseAmount ord) * (1 / 4)"

definition set_referral_earnings :: "nat \<Rightarrow> nat \<Rightarrow> rat \<Rightarrow> db \<Rightarrow> db" where
  \<comment> \<open>\<^verbatim>\<open>UPDATE referrals SET earnings = ? WHERE referrer_id = ? AND referred_id = ?\<close>\<close>
  "set_referral_earnings referrer referred a s =
     s\<lparr>referrals := map (\<lambda>r. if r_referrer_id r = referrer \<and> r_referred_id r = referred
                                then r\<lparr>r_earnings := a\<rparr> else r) (referrals s)\<rparr>"

definition processReferralPayment :: "nat \<Rightarrow> db \<Rightarrow> db" where
  "processReferralPayment userId s =
     (case get_user userId s of
        None \<Rightarrow> s
      | Some user \<Rightarrow>
          (case u_referred_by user of
             None \<Rightarrow> s
           | Some referrer_id \<Rightarrow>
               if length (orders_of userId s) \<noteq> 1 then s
               else
                 (case earliest (orders_of userId s) of
                    None \<Rightarrow> s
                  | Some firstOrder \<Rightarrow>
                      let amount = referralAmount firstOrder;
                          s1 = update_user referrer_id
                                 (\<lambda>u. u\<lparr>u_referral_earnings := u_referral_earnings u + amount\<rparr>) s;
                          s2 = set_referral_earnings referrer_id userId amount s1
                      in (case get_user referrer_id s2 of
                            None \<Rightarrow> s2
                          | Some referrer \<Rightarrow>
                              notify (u_id referrer) (Referral_bonus amount (u_name user)) s2))))"

section \<open>Confirm payment: POST /api/invoices/:id/confirm\<close>

definition get_invoice :: "string \<Rightarrow> db \<Rightarrow> invoice_row option" where
  \<comment> \<open>\<^verbatim>\<open>SELECT * FROM invoices WHERE id = ?\<close>\<close>
  "get_invoice iid s = find (\<lambda>i. i_id i = iid) (invoices s)"

definition mark_invoice_paid :: "nat \<Rightarrow> string \<Rightarrow> db \<Rightarrow> db" where
  \<comment> \<open>\<^verbatim>\<open>UPDATE invoices SET status = 'paid', paid_at = CURRENT_TIMESTAMP WHERE id = ?\<close>\<close>
  "mark_invoice_paid now iid s =
     s\<lparr>invoices := map (\<lambda>i. if i_id i = iid
                               then i\<lparr>i_status := ''paid'', i_paid_at := Some now\<rparr> else i)
                      (invoices s)\<rparr>"

definition set_order_working :: "string option \<Rightarrow> string option \<Rightarrow> db \<Rightarrow> db" where
  \<comment> \<open>\<^verbatim>\<open>UPDATE orders SET status = 'working', tx_hash = ? WHERE id = ?\<close>;
      a \<^verbatim>\<open>NULL\<close> order id matches no row\<close>
  "set_order_working tx oid s =
     s\<lparr>orders := map (\<lambda>row. if Some (o_id row) = oid
                               then row\<lparr>o_status := ''working'', o_tx_hash := tx\<rparr> else row)
                    (orders s)\<rparr>"

definition cashbackAmount :: "invoice_row \<Rightarrow> rat" where
  \<comment> \<open>\<^verbatim>\<open>invoice.amount * 0.05\<close>\<close>
  "cashbackAmount invoice = i_amount invoice * (5 / 100)"

definition confirm_invoice :: "nat \<Rightarrow> string \<Rightarrow> db \<Rightarrow> reply \<times> db" where
  "confirm_invoice now iid s =
     (case get_invoice iid s of
        None \<Rightarrow> (Reply 404 (Error ''Invoice not found''), s)
      | Some invoice \<Rightarrow>
          let s1 = mark_invoice_paid now iid s;
              s2 = set_order_working (i_tx_hash invoice) (i_order_id invoice) s1;
              s3 = update_user (i_user_id invoice)
                     (\<lambda>u. u\<lparr>u_cashback := u_cashback u + cashbackAmount invoice,
                             u_total_spent := u_total_spent u + i_amount invoice\<rparr>) s2;
              s4 = add_history (i_user_id invoice) (cashbackAmount invoice)
                     (Order_cashback (i_order_id invoice)) s3;
              s5 = updateUserLevel (i_user_id invoice) s4;
              s6 = processReferralPayment (i_user_id invoice) s5;
              s7 = notify (i_user_id invoice) (Payment_confirmed iid) s6
          in (Reply 200 Success, s7))"

section \<open>Promo codes: GET /api/promo/:code and POST /api/promo/apply\<close>

definition upper_char :: "char \<Rightarrow> char" where
  "upper_char c =
     (let n = (of_char c :: nat) in if 97 \<le> n \<and> n \<le> 122 then char_of (n - 32) else c)"

definition lower_char :: "char \<Rightarrow> char" where
  "lower_char c =
     (let n = (of_char c :: nat) in if 65 \<le> n \<and> n \<le> 90 then char_of (n + 32) else c)"

definition toUpperCase :: "string \<Rightarrow> string" where
  \<comment> \<open>on ASCII text, which promo codes and addresses are\<close>
  "toUpperCase = map upper_char"

definition toLowerCase :: "string \<Rightarrow> string" where
  "toLowerCase = map lower_char"

definition find_active_promo :: "string \<Rightarrow> db \<Rightarrow> promo_row option" where
  \<comment> \<open>\<^verbatim>\<open>SELECT * FROM promo_codes WHERE code = ? AND is_active = 1\<close>\<close>
  "find_active_promo c s = find (\<lambda>p. p_code p = c \<and> p_is_active p) (promo_codes s)"

definition expired :: "nat \<Rightarrow> promo_row \<Rightarrow> bool" where
  \<comment> \<open>\<^verbatim>\<open>promo.expires_at && new Date(promo.expires_at) < new Date()\<close>\<close>
  "expired now promo = (case p_expires_at promo of None \<Rightarrow> False | Some e \<Rightarrow> e < now)"

definition exhausted :: "promo_row \<Rightarrow> bool" where
  \<comment> \<open>\<^verbatim>\<open>promo.max_uses && promo.current_uses >= promo.max_uses\<close>\<close>
  "exhausted promo =
     (case p_max_uses promo of None \<Rightarrow> False | Some m \<Rightarrow> m \<noteq> 0 \<and> p_current_uses promo \<ge> m)"

definition check_promo :: "nat \<Rightarrow> string \<Rightarrow> db \<Rightarrow> reply" where
  "check_promo now c s =
     (case find_active_promo (toUpperCase c) s of
        None \<Rightarrow> Reply 200 (Promo_invalid Promo_not_found)
      | Some promo \<Rightarrow>
          if expired now promo then Reply 200 (Promo_invalid Promo_expired)
          else if exhausted promo then Reply 200 (Promo_invalid Promo_exhausted)
          else Reply 200 (Promo_valid (p_code promo) (p_discount_percent promo)))"

definition apply_promo :: "string \<Rightarrow> nat \<Rightarrow> string \<Rightarrow> db \<Rightarrow> reply \<times> db" where
  "apply_promo c user_id order_id s =
     (case find_active_promo (toUpperCase c) s of
        None \<Rightarrow> (Reply 200 (Promo_refused Promo_not_found), s)
      | Some promo \<Rightarrow>
          let s1 = s\<lparr>promo_codes :=
                      map (\<lambda>p. if p_id p = p_id promo
                                then p\<lparr>p_current_uses := p_current_uses p + 1\<rparr> else p)
                          (promo_codes s)\<rparr>
          in (case get_user user_id s1 of
                None \<Rightarrow> (Reply 500 (Error ''Failed to apply promo code''), s1)
                  \<comment> \<open>the insert fails on the foreign key \<^verbatim>\<open>promo_uses.user_id\<close> and is caught;
                      the increment, made outside any transaction, stays\<close>
              | Some user \<Rightarrow>
                  let s2 = s1\<lparr>promo_uses := promo_uses s1 @
                             [\<lparr>pu_promo_id = p_id promo, pu_user_id = user_id,
                               pu_order_id = order_id\<rparr>]\<rparr>
                  in (Reply 200 (Promo_applied (p_discount_percent promo)), s2)))"

definition uses_of :: "string \<Rightarrow> db \<Rightarrow> int option" where
  \<comment> \<open>the \<^verbatim>\<open>current_uses\<close> counter of an active code\<close>
  "uses_of c s = map_option p_current_uses (find_active_promo c s)"

section \<open>Manual cashback, reviews\<close>

definition admin_cashback :: "nat \<Rightarrow> rat option \<Rightarrow> db \<Rightarrow> reply \<times> db" where
  \<comment> \<open>\<^verbatim>\<open>POST /api/admin/users/:id/cashback\<close>\<close>
  "admin_cashback userId amount s =
     (case amount of
        None \<Rightarrow> (Reply 400 (Error ''Amount is required''), s)
      | Some a \<Rightarrow>
          (Reply 200 Success, update_user userId (\<lambda>u. u\<lparr>u_cashback := u_cashback u + a\<rparr>) s))"

definition reviewBonus :: rat where
  "reviewBonus = 2"

definition submit_review :: "string \<Rightarrow> string \<Rightarrow> db \<Rightarrow> reply \<times> db" where
  \<comment> \<open>\<^verbatim>\<open>POST /api/reviews\<close>\<close>
  "submit_review tg orderId s =
     (case get_user_by_telegram tg s of
        None \<Rightarrow> (Reply 404 (Error ''User not found''), s)
      | Some user \<Rightarrow>
          let s1 = s\<lparr>orders := map (\<lambda>row. if o_id row = orderId \<and> o_user_id row = u_id user
                                         then row\<lparr>o_reviewed := True\<rparr> else row) (orders s)\<rparr>;
              s2 = update_user (u_id user) (\<lambda>u. u\<lparr>u_cashback := u_cashback u + reviewBonus\<rparr>) s1;
              s3 = add_history (u_id user) reviewBonus Review_bonus s2
          in (Reply 200 (Success_bonus reviewBonus), s3))"

section \<open>Withdrawals\<close>

definition next_withdrawal_id :: "db \<Rightarrow> nat" where
  \<comment> \<open>\<^verbatim>\<open>INTEGER PRIMARY KEY AUTOINCREMENT\<close>; withdrawals are never deleted\<close>
  "next_withdrawal_id s = Suc (fold max (map w_id (withdrawals s)) 0)"

definition insert_withdrawal :: "user_row \<Rightarrow> string \<Rightarrow> string \<Rightarrow> rat \<Rightarrow> db \<Rightarrow> reply \<times> db" where
  \<comment> \<open>the tail of \<^verbatim>\<open>POST /api/withdrawal-request\<close>, after the checks\<close>
  "insert_withdrawal user wallet type a s =
     (let withdrawalId = next_withdrawal_id s;
          s1 = s\<lparr>withdrawals := withdrawals s @
                 [\<lparr>w_id = withdrawalId, w_user_id = u_id user, w_amount = a,
                   w_wallet_address = wallet, w_type = type, w_status = ''pending'',
                   w_tx_hash = None, w_processed_at = None\<rparr>]\<rparr>;
          s2 = notify (u_id user) (Withdrawal_requested a) s1
      in (Reply 200 (Success_withdrawal withdrawalId), s2))"

definition request_withdrawal :: "string \<Rightarrow> string \<Rightarrow> rat option \<Rightarrow> db \<Rightarrow> reply \<times> db" where
  \<comment> \<open>\<^verbatim>\<open>POST /api/withdrawal-request\<close>\<close>
  "request_withdrawal tg type amount s =
     (case get_user_by_telegram tg s of
        None \<Rightarrow> (Reply 404 (Error ''User not found''), s)
      | Some user \<Rightarrow>
          (case or_null (u_trc20_wallet user) of
             None \<Rightarrow> (Reply 400 (Error ''no_wallet''), s)
           | Some wallet \<Rightarrow>
               if \<not> truthy amount \<or> or_zero amount \<le> 0
               then (Reply 400 (Error ''invalid_amount''), s)
               else if type = ''cashback''
               then (if u_cashback user < or_zero amount
                     then (Reply 400 (Error ''insufficient_balance''), s)
                     else insert_withdrawal user wallet type (or_zero amount) s)
               else if type = ''referral''
               then (if u_referral_earnings user < or_zero amount
                     then (Reply 400 (Error ''insufficient_balance''), s)
                     else insert_withdrawal user wallet type (or_zero amount) s)
               else (Reply 400 (Error ''invalid_type''), s)))"

definition complete_withdrawal :: "nat \<Rightarrow> nat \<Rightarrow> string option \<Rightarrow> db \<Rightarrow> db" where
  \<comment> \<open>\<^verbatim>\<open>UPDATE withdrawals SET status = 'completed', tx_hash = ?, processed_at = ...\<close>\<close>
  "complete_withdrawal now wid tx s =
     s\<lparr>withdrawals := map (\<lambda>w. if w_id w = wid
                                  then w\<lparr>w_status := ''completed'', w_tx_hash := or_null tx,
                                         w_processed_at := Some now\<rparr> else w) (withdrawals s)\<rparr>"

definition process_withdrawal :: "nat \<Rightarrow> nat \<Rightarrow> string option \<Rightarrow> db \<Rightarrow> reply \<times> db" where
  \<comment> \<open>\<^verbatim>\<open>POST /api/admin/withdrawals/:id/process\<close>\<close>
  "process_withdrawal now wid tx s =
     (case find (\<lambda>w. w_id w = wid) (withdrawals s) of
        None \<Rightarrow> (Reply 404 (Error ''Withdrawal not found''), s)
      | Some withdrawal \<Rightarrow>
          if w_status withdrawal \<noteq> ''pending''
          then (Reply 400 (Error ''Withdrawal already processed''), s)
          else
            let s1 = complete_withdrawal now wid tx s in
            (case get_user (w_user_id withdrawal) s1 of
               None \<Rightarrow> (Reply 500 (Error ''Failed to process withdrawal''), s1)
                 \<comment> \<open>reading \<^verbatim>\<open>user.cashback\<close> of no row throws; the status change stays\<close>
             | Some user \<Rightarrow>
                 let s2 =
                       (if w_type withdrawal = ''cashback''
                        then add_history (u_id user) (- w_amount withdrawal) (Payout wid)
                               (update_user (u_id user)
                                  (\<lambda>u. u\<lparr>u_cashback :=
                                            max 0 (u_cashback user - w_amount withdrawal)\<rparr>) s1)
                        else if w_type withdrawal = ''referral''
                        then update_user (u_id user)
                               (\<lambda>u. u\<lparr>u_referral_earnings :=
                                         max 0 (u_referral_earnings user - w_amount withdrawal)\<rparr>) s1
                        else s1);
                     s3 = notify (u_id user) (Withdrawal_done (w_amount withdrawal)) s2
                 in (Reply 200 Success, s3)))"

section \<open>Payment verifier: POST /api/verify-tronscan\<close>

text \<open>
  The indexer's answer is an input of the model. The payload keeps the fields the handler
  reads. A JavaScript number that may be \<^verbatim>\<open>NaN\<close> (the result of \<^verbatim>\<open>parseInt\<close>) is a \<open>jsnum\<close>.
\<close>

datatype jsnum = NaN | Num rat

record contract_data =
  cd_amount :: "rat option"
  cd_to_address :: "string option"

record parameter =
  pm_value :: "string option"    \<comment> \<open>\<^verbatim>\<open>_value\<close>\<close>
  pm_to :: "string option"       \<comment> \<open>\<^verbatim>\<open>_to\<close>\<close>

record tx_data =
  tx_code :: "string option"
  tx_confirmed :: bool
  tx_contractData :: "contract_data option"
  tx_toAddress :: "string option"
  tx_trigger_parameter :: "parameter option"   \<comment> \<open>\<^verbatim>\<open>trigger_info.parameter\<close>\<close>
  tx_timestamp :: "nat option"

datatype indexer_answer =
    Fetch_failed                 \<comment> \<open>\<^verbatim>\<open>fetch\<close> or \<^verbatim>\<open>response.json()\<close> throws\<close>
  | Http_error nat               \<comment> \<open>\<^verbatim>\<open>response.ok\<close> is false\<close>
  | Http_ok "tx_data option"     \<comment> \<open>the parsed body; \<open>None\<close> is JSON \<^verbatim>\<open>null\<close>\<close>

record verify_body =
  vb_txHash :: "string option"
  vb_expectedAmount :: "rat option"
  vb_recipientAddress :: "string option"

datatype verify_reason =
    Not_on_tronscan              \<comment> \<open>the indexer answered with an HTTP error\<close>
  | Tx_not_found
  | Tx_unconfirmed
  | Wrong_amount rat jsnum       \<comment> \<open>expected, found\<close>
  | No_recipient
  | Wrong_recipient string string  \<comment> \<open>expected, found\<close>
  | Check_failed                 \<comment> \<open>an exception, caught\<close>

datatype verify_answer =
    Bad_request string           \<comment> \<open>\<^verbatim>\<open>{error}\<close>\<close>
  | Unverified verify_reason     \<comment> \<open>\<^verbatim>\<open>{verified: false, error}\<close>\<close>
  | Verified jsnum string bool "nat option"
                                 \<comment> \<open>\<^verbatim>\<open>{verified: true, amount, recipient, confirmed, timestamp}\<close>\<close>

definition is_space :: "char \<Rightarrow> bool" where
  "is_space c = ((of_char c :: nat) \<in> {9, 10, 11, 12, 13, 32})"

definition digit_of :: "char \<Rightarrow> nat option" where
  "digit_of c =
     (let n = (of_char c :: nat) in
      if 48 \<le> n \<and> n \<le> 57 then Some (n - 48)
      else if 97 \<le> n \<and> n \<le> 102 then Some (n - 87)
      else if 65 \<le> n \<and> n \<le> 70 then Some (n - 55)
      else None)"

definition is_digit :: "nat \<Rightarrow> char \<Rightarrow> bool" where
  "is_digit radix c = (case digit_of c of None \<Rightarrow> False | Some d \<Rightarrow> d < radix)"

definition digits_value :: "nat \<Rightarrow> string \<Rightarrow> rat" where
  "digits_value radix ds =
     fold (\<lambda>c acc. acc * of_nat radix + (case digit_of c of None \<Rightarrow> 0 | Some d \<Rightarrow> of_nat d)) ds 0"

definition parse_digits :: "nat \<Rightarrow> string \<Rightarrow> rat option" where
  "parse_digits radix cs =
     (let ds = takeWhile (is_digit radix) cs in
      if ds = [] then None else Some (digits_value radix ds))"

definition parse_unsigned :: "string \<Rightarrow> rat option" where
  \<comment> \<open>no radix argument: a \<^verbatim>\<open>0x\<close> prefix selects base 16, anything else base 10\<close>
  "parse_unsigned cs =
     (case cs of
        a # b # rest \<Rightarrow>
          if a = CHR ''0'' \<and> (b = CHR ''x'' \<or> b = CHR ''X'')
          then parse_digits 16 rest else parse_digits 10 cs
      | _ \<Rightarrow> parse_digits 10 cs)"

definition parseInt :: "string \<Rightarrow> jsnum" where
  "parseInt str =
     (let cs = dropWhile is_space str;
          neg = (cs \<noteq> [] \<and> hd cs = CHR ''-'');
          body = (if cs \<noteq> [] \<and> (hd cs = CHR ''-'' \<or> hd cs = CHR ''+'') then tl cs else cs)
      in case parse_unsigned body of
           None \<Rightarrow> NaN
         | Some n \<Rightarrow> Num (if neg then - n else n))"

definition js_div :: "jsnum \<Rightarrow> rat \<Rightarrow> jsnum" where
  "js_div x d = (case x of NaN \<Rightarrow> NaN | Num v \<Rightarrow> Num (v / d))"

definition str_truthy :: "string option \<Rightarrow> bool" where
  "str_truthy x = (or_null x \<noteq> None)"

definition str_of :: "string option \<Rightarrow> string" where
  \<comment> \<open>a value only tested for truthiness and compared: every falsy value is the empty string\<close>
  "str_of x = (case or_null x of None \<Rightarrow> [] | Some v \<Rightarrow> v)"

definition contract_amount :: "tx_data \<Rightarrow> rat option" where
  \<comment> \<open>\<^verbatim>\<open>txData.contractData && txData.contractData.amount\<close>\<close>
  "contract_amount txData =
     (case tx_contractData txData of None \<Rightarrow> None | Some cd \<Rightarrow> cd_amount cd)"

definition contract_to :: "tx_data \<Rightarrow> string" where
  \<comment> \<open>\<^verbatim>\<open>txData.contractData.to_address || txData.toAddress\<close>\<close>
  "contract_to txData =
     (case tx_contractData txData of
        None \<Rightarrow> str_of (tx_toAddress txData)
      | Some cd \<Rightarrow>
          if str_truthy (cd_to_address cd) then str_of (cd_to_address cd)
          else str_of (tx_toAddress txData))"

definition transfer_of :: "tx_data \<Rightarrow> jsnum \<times> string" where
  \<comment> \<open>\<^verbatim>\<open>transferAmount\<close> and \<^verbatim>\<open>transferTo\<close> as the handler extracts them,
      starting from \<^verbatim>\<open>0\<close> and the empty string\<close>
  "transfer_of txData =
     (if truthy (contract_amount txData)
      then (Num (or_zero (contract_amount txData) / 1000000), contract_to txData)
      else
        (case tx_trigger_parameter txData of
           None \<Rightarrow> (Num 0, [])
         | Some param \<Rightarrow>
             (if str_truthy (pm_value param)
              then js_div (parseInt (str_of (pm_value param))) 1000000 else Num 0,
              if str_truthy (pm_to param) then str_of (pm_to param) else [])))"

definition positive :: "jsnum \<Rightarrow> bool" where
  \<comment> \<open>\<^verbatim>\<open>transferAmount > 0\<close>; false on \<^verbatim>\<open>NaN\<close>\<close>
  "positive x = (case x of NaN \<Rightarrow> False | Num v \<Rightarrow> v > 0)"

text \<open>
  The handler compares in IEEE 754 double precision, and at the edge of the tolerance the
  rounding decides. \<open>round_double\<close> rounds a rational to the nearest double, ties to the even
  significand of 53 bits, for magnitudes in the normal range (which amounts of money are).
  Every number a request or a payload carries is read as the nearest double, and each
  arithmetic operation rounds its exact result.
\<close>

function bit_length :: "int \<Rightarrow> int" where
  \<comment> \<open>the number of binary digits of a positive integer\<close>
  "bit_length p = (if p \<le> 0 then 0 else 1 + bit_length (p div 2))"
  by pat_completeness auto
termination
  by (relation "measure nat") auto

definition pow2 :: "int \<Rightarrow> rat" where
  "pow2 k = (if 0 \<le> k then 2 ^ nat k else 1 / 2 ^ nat (- k))"

definition exponent_of :: "rat \<Rightarrow> int" where
  \<comment> \<open>for \<open>a > 0\<close>, the \<open>k\<close> with \<open>2 ^ k \<le> a < 2 ^ (k + 1)\<close>\<close>
  "exponent_of a =
     (let (p, d) = quotient_of a;
          k = bit_length p - bit_length d
      in if pow2 k \<le> a then k else k - 1)"

definition round_half_even :: "rat \<Rightarrow> int" where
  "round_half_even n =
     (let f = \<lfloor>n\<rfloor>; r = n - of_int f
      in if r < 1 / 2 then f else if r > 1 / 2 then f + 1 else if even f then f else f + 1)"

definition round_double :: "rat \<Rightarrow> rat" where
  "round_double q =
     (if q = 0 then 0
      else
        let a = \<bar>q\<bar>; ulp = pow2 (exponent_of a - 52)
        in sgn q * of_int (round_half_even (a / ulp)) * ulp)"

definition off_by_more :: "jsnum \<Rightarrow> rat \<Rightarrow> bool" where
  \<comment> \<open>\<^verbatim>\<open>Math.abs(transferAmount - expectedAmount) > expectedAmount * 0.01\<close>, where
      \<^verbatim>\<open>transferAmount\<close> is the amount in smallest units divided by \<^verbatim>\<open>1000000\<close>\<close>
  "off_by_more x e =
     (case x of
        NaN \<Rightarrow> False
      | Num v \<Rightarrow>
          let transferAmount = round_double (round_double (v * 1000000) / 1000000);
              expectedAmount = round_double e;
              tolerance = round_double (expectedAmount * round_double (1 / 100))
          in \<bar>round_double (transferAmount - expectedAmount)\<bar> > tolerance)"

definition amount_rejected :: "rat option \<Rightarrow> jsnum \<Rightarrow> bool" where
  \<comment> \<open>\<^verbatim>\<open>if (expectedAmount && transferAmount > 0) { if (Math.abs(...) > tolerance) ... }\<close>\<close>
  "amount_rejected expectedAmount transferAmount =
     (truthy expectedAmount \<and> positive transferAmount
      \<and> off_by_more transferAmount (or_zero expectedAmount))"

definition check_transfer :: "rat option \<Rightarrow> string \<Rightarrow> tx_data \<Rightarrow> nat \<times> verify_answer" where
  \<comment> \<open>the handler from the confirmation check on\<close>
  "check_transfer expectedAmount recipientAddress txData =
     (if \<not> tx_confirmed txData then (200, Unverified Tx_unconfirmed)
      else
        let (transferAmount, transferTo) = transfer_of txData in
        if amount_rejected expectedAmount transferAmount
        then (200, Unverified (Wrong_amount (or_zero expectedAmount) transferAmount))
        else if transferTo = [] then (200, Unverified No_recipient)
        else if toLowerCase transferTo \<noteq> toLowerCase recipientAddress
        then (200, Unverified (Wrong_recipient recipientAddress transferTo))
        else (200, Verified transferAmount transferTo (tx_confirmed txData)
                     (tx_timestamp txData)))"

definition verify_tronscan :: "verify_body \<Rightarrow> indexer_answer \<Rightarrow> nat \<times> verify_answer" where
  "verify_tronscan req answer =
     (if \<not> str_truthy (vb_txHash req) then (400, Bad_request ''Transaction hash required'')
      else if \<not> str_truthy (vb_recipientAddress req)
      then (400, Bad_request ''Recipient address required'')
      else
        (case answer of
           Fetch_failed \<Rightarrow> (500, Unverified Check_failed)
         | Http_error code \<Rightarrow> (400, Unverified Not_on_tronscan)
         | Http_ok None \<Rightarrow> (200, Unverified Tx_not_found)
         | Http_ok (Some txData) \<Rightarrow>
             if tx_code txData = Some ''NOT_FOUND'' then (200, Unverified Tx_not_found)
             else check_transfer (vb_expectedAmount req) (str_of (vb_recipientAddress req)) txData))"


section \<open>The earlier variant of order creation\<close>

text \<open>
  The repository also holds an earlier generation of the server (the unnamed source file
  \<^verbatim>\<open>part_001\<close>), with no invoices and no payment confirmation. Its order creation credits
  the rewards at once and its referral commission is a quarter of the order's total. The
  orders table of that variant has no subtotal, promo or discount-amount column.
\<close>

definition insert_order_v1 :: "nat \<Rightarrow> nat \<Rightarrow> string \<Rightarrow> order_body \<Rightarrow> order_row" where
  "insert_order_v1 now uid oid b =
     \<lparr>o_id = oid, o_user_id = uid, o_service = b_service b, o_niche = b_niche b,
      o_base_price = Some (b_basePrice b), o_discount = Some (b_discount b),
      o_cashback_used = Some (or_zero (b_cashbackUsed b)), o_total = Some (b_total b),
      o_cashback_earned = Some (b_cashbackEarned b), o_status = ''pending'',
      o_tx_hash = or_null (b_txHash b), o_payment_method = or_null (b_paymentMethod b),
      o_reviewed = False, o_created_at = now, o_promo_code = None,
      o_discount_amount = None, o_subtotal = None\<rparr>"

definition referralAmount_v1 :: "order_row \<Rightarrow> rat" where
  \<comment> \<open>\<^verbatim>\<open>firstOrder.total * 0.25\<close>\<close>
  "referralAmount_v1 ord = or_zero (o_total ord) * (1 / 4)"

definition processReferralPayment_v1 :: "nat \<Rightarrow> db \<Rightarrow> db" where
  "processReferralPayment_v1 userId s =
     (case get_user userId s of
        None \<Rightarrow> s
      | Some user \<Rightarrow>
          (case u_referred_by user of
             None \<Rightarrow> s
           | Some referrer_id \<Rightarrow>
               if length (orders_of userId s) \<noteq> 1 then s
               else
                 (case earliest (orders_of userId s) of
                    None \<Rightarrow> s
                  | Some firstOrder \<Rightarrow>
                      let amount = referralAmount_v1 firstOrder;
                          s1 = update_user referrer_id
                                 (\<lambda>u. u\<lparr>u_referral_earnings := u_referral_earnings u + amount\<rparr>) s;
                          s2 = set_referral_earnings referrer_id userId amount s1
                      in (case get_user referrer_id s2 of
                            None \<Rightarrow> s2
                          | Some referrer \<Rightarrow>
                              notify (u_id referrer) (Referral_bonus amount (u_name user)) s2))))"

definition history_v1 :: "nat \<Rightarrow> string \<Rightarrow> order_body \<Rightarrow> db \<Rightarrow> db" where
  \<comment> \<open>the entry for redeemed cashback, when positive, then the entry for earned cashback\<close>
  "history_v1 uid oid b s =
     add_history uid (b_cashbackEarned b) (Order_cashback (Some oid))
       (case b_cashbackUsed b of
          None \<Rightarrow> s
        | Some c \<Rightarrow> if c > 0 then add_history uid (- c) (Order_payment oid) s else s)"

definition create_order_v1 :: "nat \<Rightarrow> string \<Rightarrow> order_body \<Rightarrow> db \<Rightarrow> reply \<times> db" where
  "create_order_v1 now tg b s =
     (case get_user_by_telegram tg s of
        None \<Rightarrow> (Reply 404 (Error ''User not found''), s)
      | Some user \<Rightarrow>
          let orderId = new_order_id now b in
          if orderId \<in> set (map o_id (orders s))
          then (Reply 500 (Error ''Server error''), s)
          else
            let s1 = s\<lparr>orders := orders s @ [insert_order_v1 now (u_id user) orderId b]\<rparr>;
                s2 = update_user (u_id user)
                       (\<lambda>u. u\<lparr>u_cashback := u_cashback u - or_zero (b_cashbackUsed b)
                                                 + b_cashbackEarned b,
                               u_total_spent := u_total_spent u + b_total b\<rparr>) s1;
                s3 = history_v1 (u_id user) orderId b s2;
                s4 = updateUserLevel (u_id user) s3;
                s5 = processReferralPayment_v1 (u_id user) s4;
                s6 = notify (u_id user) (Order_created orderId) s5
            in (Reply 200 (Success_order orderId), s6))"

section \<open>Sample data\<close>

definition alice :: user_row where
  "alice = \<lparr>u_id = 1, u_telegram_id = ''1001'', u_name = ''Alice'', u_level = none,
            u_total_spent = 0, u_cashback = 6, u_referral_code = ''ALICAB12'',
            u_referred_by = None, u_referral_earnings = 0, u_trc20_wallet = Some ''TAliceWallet''\<rparr>"

definition bob :: user_row where
  "bob = \<lparr>u_id = 2, u_telegram_id = ''1002'', u_name = ''Bob'', u_level = none,
          u_total_spent = 0, u_cashback = 0, u_referral_code = ''BOBXCD34'',
          u_referred_by = Some 1, u_referral_earnings = 0, u_trc20_wallet = None\<rparr>"

definition carol :: user_row where
  "carol = \<lparr>u_id = 3, u_telegram_id = ''1003'', u_name = ''Carol'', u_level = none,
            u_total_spent = 0, u_cashback = 0, u_referral_code = ''CAROEF56'',
            u_referred_by = None, u_referral_earnings = 0, u_trc20_wallet = None\<rparr>"

definition dave :: user_row where
  "dave = \<lparr>u_id = 4, u_telegram_id = ''1004'', u_name = ''Dave'', u_level = none,
           u_total_spent = 0, u_cashback = 0, u_referral_code = ''DAVEGH78'',
           u_referred_by = Some 1, u_referral_earnings = 0, u_trc20_wallet = None\<rparr>"

definition sample_order :: "string \<Rightarrow> nat \<Rightarrow> nat \<Rightarrow> rat \<Rightarrow> rat \<Rightarrow> order_row" where
  \<comment> \<open>a row as \<open>create_order\<close> writes it: id, owner, creation time, base price, promo discount\<close>
  "sample_order oid uid t price disc =
     \<lparr>o_id = oid, o_user_id = uid, o_service = ''video'', o_niche = ''games'',
      o_base_price = Some price, o_discount = Some 0, o_cashback_used = Some 0,
      o_total = Some (price - disc), o_cashback_earned = Some 0, o_status = ''awaiting_payment'',
      o_tx_hash = None, o_payment_method = None, o_reviewed = False, o_created_at = t,
      o_promo_code = None, o_discount_amount = Some disc, o_subtotal = Some price\<rparr>"

definition sample_invoice :: "string \<Rightarrow> string \<Rightarrow> nat \<Rightarrow> rat \<Rightarrow> invoice_row" where
  "sample_invoice iid oid uid a =
     \<lparr>i_id = iid, i_order_id = Some oid, i_user_id = uid, i_amount = a, i_final_amount = a,
      i_tx_hash = Some ''abc123'', i_status = ''awaiting_payment'', i_paid_at = None\<rparr>"

definition save10 :: promo_row where
  "save10 = \<lparr>p_id = 1, p_code = ''SAVE10'', p_discount_percent = 10, p_max_uses = Some 1,
             p_current_uses = 0, p_expires_at = None, p_is_active = True\<rparr>"

definition db0 :: db where
  \<comment> \<open>Bob was referred by Alice and has one order (subtotal 200, discount 30) with its invoice;
      Carol has one order of 150 with its invoice; Dave was referred by Alice and has no order;
      Alice holds 6 of cashback from three reviews\<close>
  "db0 = \<lparr>users = [alice, bob, carol, dave],
          orders = [sample_order ''ORD1'' 2 10 200 30, sample_order ''ORD2'' 3 11 150 0],
          cashback_history =
            [\<lparr>h_user_id = 1, h_amount = 2, h_description = Review_bonus\<rparr>,
             \<lparr>h_user_id = 1, h_amount = 2, h_description = Review_bonus\<rparr>,
             \<lparr>h_user_id = 1, h_amount = 2, h_description = Review_bonus\<rparr>],
          referrals = [\<lparr>r_referrer_id = 1, r_referred_id = 2, r_earnings = 0\<rparr>],
          notifications = [],
          promo_codes = [save10],
          promo_uses = [],
          invoices = [sample_invoice ''INV1'' ''ORD1'' 2 170, sample_invoice ''INV2'' ''ORD2'' 3 150],
          withdrawals = []\<rparr>"

definition order5 :: order_body where
  \<comment> \<open>a request that redeems 5 of cashback\<close>
  "order5 = \<lparr>b_id = Some ''ORD9'', b_service = ''video'', b_niche = ''games'', b_basePrice = 40,
             b_discount = 0, b_cashbackUsed = Some 5, b_total = 35, b_cashbackEarned = 2,
             b_txHash = None, b_paymentMethod = None, b_promoCode = None,
             b_promoDiscount = None, b_referralDiscount = None\<rparr>"

definition order10 :: order_body where
  \<comment> \<open>a request that redeems 10 of cashback\<close>
  "order10 = order5\<lparr>b_id := Some ''ORD8'', b_cashbackUsed := Some 10, b_total := 30\<rparr>"

definition db1 :: db where
  \<comment> \<open>the store after the payment of invoice INV1 was confirmed at time 20\<close>
  "db1 = snd (confirm_invoice 20 ''INV1'' db0)"

definition pay_to :: string where
  \<comment> \<open>the default payment address of the source\<close>
  "pay_to = ''TAXtuQh2zJHks5yZQ2zzVdEFExs7ktoYuV''"

definition tx_base :: tx_data where
  \<comment> \<open>a confirmed transaction with no transfer data yet\<close>
  "tx_base = \<lparr>tx_code = None, tx_confirmed = True, tx_contractData = None, tx_toAddress = None,
              tx_trigger_parameter = None, tx_timestamp = Some 1700000000\<rparr>"

definition tx_98 :: tx_data where
  \<comment> \<open>a transfer of 98 to the payment address\<close>
  "tx_98 = tx_base\<lparr>tx_contractData :=
             Some \<lparr>cd_amount = Some 98000000, cd_to_address = Some pay_to\<rparr>\<rparr>"

definition tx_100 :: tx_data where
  \<comment> \<open>a transfer of 100 to the payment address, in the alternative payload structure\<close>
  "tx_100 = tx_base\<lparr>tx_trigger_parameter :=
              Some \<lparr>pm_value = Some ''100000000'', pm_to = Some pay_to\<rparr>\<rparr>"

definition tx_zero :: tx_data where
  \<comment> \<open>a transfer of 0 to the payment address\<close>
  "tx_zero = tx_base\<lparr>tx_trigger_parameter := Some \<lparr>pm_value = Some ''0'', pm_to = Some pay_to\<rparr>\<rparr>"

definition tx_no_value :: tx_data where
  \<comment> \<open>a payload that names the recipient and carries no amount\<close>
  "tx_no_value = tx_base\<lparr>tx_trigger_parameter := Some \<lparr>pm_value = None, pm_to = Some pay_to\<rparr>\<rparr>"

definition req100 :: verify_body where
  \<comment> \<open>expecting 100; the recipient is spelled in lower case\<close>
  "req100 = \<lparr>vb_txHash = Some ''abc123'', vb_expectedAmount = Some 100,
             vb_recipientAddress = Some ''taxtuqh2zjhks5yzq2zzvdefexs7ktoyuv''\<rparr>"

section \<open>Lemmas about the store\<close>

lemmas sample_defs = db0_def alice_def bob_def carol_def dave_def sample_order_def sample_invoice_def save10_def

declare show_nat.simps [simp del]

lemma find_map_same_key:
  assumes "\<And>u. u_id (f u) = u_id u"
  shows "find (\<lambda>u. u_id u = j) (map (\<lambda>u. if u_id u = k then f u else u) us)
         = map_option (\<lambda>u. if u_id u = k then f u else u) (find (\<lambda>u. u_id u = j) us)"
  using assms by (induction us) auto

lemma get_user_update_user:
  assumes "\<And>u. u_id (f u) = u_id u"
  shows "get_user j (update_user k f s)
         = map_option (\<lambda>u. if u_id u = k then f u else u) (get_user j s)"
  using find_map_same_key [OF assms] by (simp add: get_user_def update_user_def)

lemma get_user_add_history [simp]: "get_user j (add_history uid a d s) = get_user j s"
  by (simp add: get_user_def add_history_def)

lemma get_user_notify [simp]: "get_user j (notify uid t s) = get_user j s"
  by (simp add: get_user_def notify_def)

lemma get_user_Some_id: "get_user j s = Some u \<Longrightarrow> u_id u = j"
  by (auto simp: get_user_def dest: find_Some_iff [THEN iffD1])

lemma find_distinct_key:
  "distinct (map u_id us) \<Longrightarrow> u \<in> set us \<Longrightarrow> find (\<lambda>x. u_id x = u_id u) us = Some u"
  by (induction us) (auto simp: image_iff)

lemma by_telegram_get_user:
  assumes "distinct (map u_id (users s))" and "get_user_by_telegram tg s = Some user"
  shows "get_user (u_id user) s = Some user"
proof -
  from assms(2) have "user \<in> set (users s)"
    by (auto simp: get_user_by_telegram_def find_Some_iff)
  with assms(1) show ?thesis by (simp add: get_user_def find_distinct_key)
qed

lemma field_update_user:
  assumes "\<And>u. u_id (f u) = u_id u" and "\<And>u. P (f u) = P u"
  shows "map_option P (get_user j (update_user k f s)) = map_option P (get_user j s)"
  by (cases "get_user j s") (simp_all add: get_user_update_user [OF assms(1)] assms(2))

lemma get_user_mark_invoice_paid [simp]: "get_user j (mark_invoice_paid now iid s) = get_user j s"
  by (simp add: get_user_def mark_invoice_paid_def)

lemma get_user_set_order_working [simp]: "get_user j (set_order_working tx oid s) = get_user j s"
  by (simp add: get_user_def set_order_working_def)

lemma get_user_set_referral_earnings [simp]:
  "get_user j (set_referral_earnings a b c s) = get_user j s"
  by (simp add: get_user_def set_referral_earnings_def)

lemma get_user_updateUserLevel:
  "get_user j (updateUserLevel k s) =
     (if j = k
      then map_option (\<lambda>u. u\<lparr>u_level := (if level_for (u_total_spent u) = none then u_level u
                                              else level_for (u_total_spent u))\<rparr>) (get_user k s)
      else get_user j s)"
proof (cases "get_user k s")
  case None
  then show ?thesis by (simp add: updateUserLevel_def)
next
  case (Some user)
  then have id: "u_id user = k" by (rule get_user_Some_id)
  show ?thesis
  proof (cases "level_for (u_total_spent user) \<noteq> u_level user \<and> level_for (u_total_spent user) \<noteq> none")
    case True
    have "get_user j (updateUserLevel k s)
          = map_option (\<lambda>u. if u_id u = k then u\<lparr>u_level := level_for (u_total_spent user)\<rparr> else u)
              (get_user j s)"
      using Some True by (simp add: updateUserLevel_def Let_def get_user_update_user)
    then show ?thesis
      using Some True id by (cases "get_user j s") (auto dest: get_user_Some_id)
  next
    case False
    then show ?thesis using Some by (auto simp: updateUserLevel_def Let_def)
  qed
qed

lemma field_updateUserLevel:
  assumes "\<And>u l. P (u\<lparr>u_level := l\<rparr>) = P u"
  shows "map_option P (get_user j (updateUserLevel k s)) = map_option P (get_user j s)"
  by (cases "get_user k s") (simp_all add: get_user_updateUserLevel assms)

lemma other_tables_updateUserLevel [simp]:
  "orders (updateUserLevel k s) = orders s"
  "referrals (updateUserLevel k s) = referrals s"
  "cashback_history (updateUserLevel k s) = cashback_history s"
  "invoices (updateUserLevel k s) = invoices s"
  by (simp_all add: updateUserLevel_def Let_def notify_def update_user_def split: option.splits)

lemma processReferralPayment_idle:
  assumes "get_user k s = None \<or> (\<exists>u. get_user k s = Some u \<and> u_referred_by u = None)
           \<or> length (orders_of k s) \<noteq> 1"
  shows "processReferralPayment k s = s"
  using assms by (auto simp: processReferralPayment_def split: option.splits)

lemma processReferralPayment_fires:
  assumes "get_user k s = Some user" and "u_referred_by user = Some r" and "orders_of k s = [ord]"
  shows "processReferralPayment k s =
     (let s2 = set_referral_earnings r k (referralAmount ord)
                 (update_user r (\<lambda>u. u\<lparr>u_referral_earnings := u_referral_earnings u + referralAmount ord\<rparr>) s)
      in case get_user r s2 of None \<Rightarrow> s2
         | Some referrer \<Rightarrow> notify (u_id referrer) (Referral_bonus (referralAmount ord) (u_name user)) s2)"
  using assms by (simp add: processReferralPayment_def Let_def)

lemma filter_owner_map:
  assumes "\<And>row. o_user_id (g row) = o_user_id row"
  shows "filter (\<lambda>row. o_user_id row = uid) (map g xs) = map g (filter (\<lambda>row. o_user_id row = uid) xs)"
  using assms by (induction xs) auto

lemma orders_of_set_order_working:
  "orders_of uid (set_order_working tx oid s) =
     map (\<lambda>row. if Some (o_id row) = oid then row\<lparr>o_status := ''working'', o_tx_hash := tx\<rparr> else row)
       (orders_of uid s)"
  unfolding orders_of_def set_order_working_def
  by (simp add: filter_owner_map)

lemma orders_of_users_only [simp]:
  "orders_of uid (update_user k f s) = orders_of uid s"
  "orders_of uid (add_history a b c s) = orders_of uid s"
  "orders_of uid (notify a t s) = orders_of uid s"
  "orders_of uid (mark_invoice_paid now iid s) = orders_of uid s"
  "orders_of uid (updateUserLevel k s) = orders_of uid s"
  by (simp_all add: orders_of_def update_user_def add_history_def notify_def mark_invoice_paid_def)

lemma referralAmount_working [simp]:
  "referralAmount (row\<lparr>o_status := st, o_tx_hash := tx\<rparr>) = referralAmount row"
  by (simp add: referralAmount_def baseAmount_def)


lemma other_tables_processReferralPayment [simp]:
  "cashback_history (processReferralPayment k s) = cashback_history s"
  "orders (processReferralPayment k s) = orders s"
  "invoices (processReferralPayment k s) = invoices s"
  by (simp_all add: processReferralPayment_def Let_def notify_def update_user_def
        set_referral_earnings_def split: option.splits)

lemma referrals_frame [simp]:
  "referrals (update_user k f s) = referrals s"
  "referrals (add_history a b c s) = referrals s"
  "referrals (notify a t s) = referrals s"
  "referrals (set_order_working tx oid s) = referrals s"
  "referrals (mark_invoice_paid now iid s) = referrals s"
  by (simp_all add: update_user_def add_history_def notify_def set_order_working_def
        mark_invoice_paid_def)



lemmas confirm_defs = confirm_invoice_def get_invoice_def mark_invoice_paid_def set_order_working_def
  cashbackAmount_def update_user_def add_history_def updateUserLevel_def get_user_def level_for_def
  notify_def processReferralPayment_def orders_of_def referralAmount_def baseAmount_def truthy_def
  or_zero_def set_referral_earnings_def Let_def

lemma db1_eq:
  "db1 = db0
     \<lparr>users := [alice\<lparr>u_referral_earnings := 50\<rparr>,
                 bob\<lparr>u_level := bronze, u_total_spent := 170, u_cashback := 17 / 2\<rparr>, carol, dave],
      orders := [(sample_order ''ORD1'' 2 10 200 30)\<lparr>o_status := ''working'', o_tx_hash := Some ''abc123''\<rparr>,
                 sample_order ''ORD2'' 3 11 150 0],
      cashback_history := cashback_history db0 @
        [\<lparr>h_user_id = 2, h_amount = 17 / 2, h_description = Order_cashback (Some ''ORD1'')\<rparr>],
      referrals := [\<lparr>r_referrer_id = 1, r_referred_id = 2, r_earnings = 50\<rparr>],
      notifications := [\<lparr>n_user_id = 2, n_title = New_level bronze\<rparr>,
                        \<lparr>n_user_id = 1, n_title = Referral_bonus 50 ''Bob''\<rparr>,
                        \<lparr>n_user_id = 2, n_title = Payment_confirmed ''INV1''\<rparr>],
      invoices := [(sample_invoice ''INV1'' ''ORD1'' 2 170)\<lparr>i_status := ''paid'', i_paid_at := Some 20\<rparr>,
                   sample_invoice ''INV2'' ''ORD2'' 3 150]\<rparr>"
  by (simp add: db1_def confirm_defs sample_defs)

section \<open>Order creation\<close>

text \<open>
  C8. Creating an order that redeems an amount \<open>c > 0\<close> of cashback (for instance \<open>c = 5\<close>)
  answers with the order id, lowers the user's cashback balance by exactly \<open>c\<close>, appends one
  history entry of amount \<open>- c\<close> described as the payment of that order, and leaves every
  user's total spent, referral earnings and level, and the referral rows, as they were:
  nothing is earned and no commission is paid at creation.
\<close>

theorem create_order_redeems_cashback:
  assumes "distinct (map u_id (users s))"
      and "get_user_by_telegram tg s = Some user"
      and "b_cashbackUsed b = Some c" and "c > 0"
      and "new_order_id now b \<notin> set (map o_id (orders s))"
  shows "fst (create_order now tg b s) = Reply 200 (Success_order (new_order_id now b))
       \<and> cashback_of (u_id user) (snd (create_order now tg b s)) = Some (u_cashback user - c)
       \<and> cashback_history (snd (create_order now tg b s)) = cashback_history s @
           [\<lparr>h_user_id = u_id user, h_amount = - c,
             h_description = Order_payment (new_order_id now b)\<rparr>]
       \<and> (\<forall>uid. total_spent_of uid (snd (create_order now tg b s)) = total_spent_of uid s)
       \<and> (\<forall>uid. referral_earnings_of uid (snd (create_order now tg b s)) = referral_earnings_of uid s)
       \<and> (\<forall>uid. level_of uid (snd (create_order now tg b s)) = level_of uid s)
       \<and> referrals (snd (create_order now tg b s)) = referrals s"
proof -
  let ?oid = "new_order_id now b"
  let ?s1 = "s\<lparr>orders := orders s @ [insert_order now (u_id user) ?oid b]\<rparr>"
  let ?f = "\<lambda>u. u\<lparr>u_cashback := u_cashback u - c\<rparr>"
  have run: "create_order now tg b s =
      (Reply 200 (Success_order ?oid),
       notify (u_id user) (Order_created ?oid)
         (add_history (u_id user) (- c) (Order_payment ?oid) (update_user (u_id user) ?f ?s1)))"
    using assms(2,3,4,5) by (simp add: create_order_def deduct_used_cashback_def Let_def)
  have g1: "\<And>j. get_user j ?s1 = get_user j s" by (simp add: get_user_def)
  have g: "\<And>j. get_user j (snd (create_order now tg b s))
             = map_option (\<lambda>u. if u_id u = u_id user then ?f u else u) (get_user j s)"
    by (simp add: run get_user_update_user g1)
  have me: "get_user (u_id user) s = Some user"
    using assms(1,2) by (rule by_telegram_get_user)
  show ?thesis
    apply (intro conjI allI)
    subgoal by (simp add: run)
    subgoal by (simp add: cashback_of_def g me)
    subgoal by (simp add: run notify_def add_history_def update_user_def)
    subgoal for uid by (cases "get_user uid s") (simp_all add: total_spent_of_def g)
    subgoal for uid by (cases "get_user uid s") (simp_all add: referral_earnings_of_def g)
    subgoal for uid by (cases "get_user uid s") (simp_all add: level_of_def g)
    subgoal by (simp add: run notify_def add_history_def update_user_def)
    done
qed

theorem create_order_redeems_cashback_witness:
  "cashback_of 1 db0 = Some 6
   \<and> fst (create_order 7 ''1001'' order5 db0) = Reply 200 (Success_order ''ORD9'')
   \<and> cashback_of 1 (snd (create_order 7 ''1001'' order5 db0)) = Some 1
   \<and> cashback_history (snd (create_order 7 ''1001'' order5 db0)) = cashback_history db0 @
        [\<lparr>h_user_id = 1, h_amount = - 5, h_description = Order_payment ''ORD9''\<rparr>]
   \<and> total_spent_of 1 (snd (create_order 7 ''1001'' order5 db0)) = Some 0
   \<and> referral_earnings_of 1 (snd (create_order 7 ''1001'' order5 db0)) = Some 0"
proof -
  have h1: "distinct (map u_id (users db0))" by (simp add: sample_defs)
  have h2: "get_user_by_telegram ''1001'' db0 = Some alice"
    by (simp add: get_user_by_telegram_def sample_defs)
  have h3: "b_cashbackUsed order5 = Some 5" by (simp add: order5_def)
  have h4: "(5::rat) > 0" by simp
  have id: "new_order_id 7 order5 = ''ORD9''" by (simp add: new_order_id_def or_null_def order5_def)
  have h5: "new_order_id 7 order5 \<notin> set (map o_id (orders db0))"
    by (simp add: id sample_defs)
  have e: "total_spent_of 1 db0 = Some 0" "referral_earnings_of 1 db0 = Some 0" "cashback_of 1 db0 = Some 6"
    by (simp_all add: total_spent_of_def referral_earnings_of_def cashback_of_def get_user_def sample_defs)
  show ?thesis
    using create_order_redeems_cashback [OF h1 h2 h3 h4 h5] e
    by (simp add: id alice_def)
qed

section \<open>Payment confirmation\<close>



text \<open>
  C4. When the payment of a referred user's only order is confirmed, the referrer's
  referral earnings grow by exactly 25 percent of the order's subtotal \<open>sub\<close>, whatever the
  discount and the discounted total are, and the referral row of the pair has its earnings
  overwritten with that amount. The subtotal is nonzero, or, when it is zero, the order's
  base price and total are zero or absent as well.
\<close>

theorem referral_commission_quarter_of_subtotal:
  assumes inv: "get_invoice iid s = Some invoice"
      and usr: "get_user (i_user_id invoice) s = Some user"
      and ref: "u_referred_by user = Some r"
      and rfr: "get_user r s = Some referrer"
      and one: "orders_of (i_user_id invoice) s = [ord]"
      and sub: "o_subtotal ord = Some sub"
      and nz: "sub \<noteq> 0 \<or> (\<not> truthy (o_base_price ord) \<and> \<not> truthy (o_total ord))"
  shows "referral_earnings_of r (snd (confirm_invoice now iid s))
           = Some (u_referral_earnings referrer + sub * (25 / 100))
       \<and> referrals (snd (confirm_invoice now iid s))
           = map (\<lambda>row. if r_referrer_id row = r \<and> r_referred_id row = i_user_id invoice
                         then row\<lparr>r_earnings := sub * (25 / 100)\<rparr> else row) (referrals s)"
proof -
  let ?uid = "i_user_id invoice"
  let ?f = "\<lambda>u. u\<lparr>u_cashback := u_cashback u + cashbackAmount invoice,
                   u_total_spent := u_total_spent u + i_amount invoice\<rparr>"
  let ?g = "\<lambda>row. if Some (o_id row) = i_order_id invoice
                  then row\<lparr>o_status := ''working'', o_tx_hash := i_tx_hash invoice\<rparr> else row"
  let ?s4 = "add_history ?uid (cashbackAmount invoice) (Order_cashback (i_order_id invoice))
              (update_user ?uid ?f
                (set_order_working (i_tx_hash invoice) (i_order_id invoice)
                  (mark_invoice_paid now iid s)))"
  let ?s5 = "updateUserLevel ?uid ?s4"
  let ?a = "sub * (25 / 100)"
  let ?h = "\<lambda>u. u\<lparr>u_referral_earnings := u_referral_earnings u + ?a\<rparr>"
  have run: "confirm_invoice now iid s =
      (Reply 200 Success, notify ?uid (Payment_confirmed iid) (processReferralPayment ?uid ?s5))"
    using inv by (simp add: confirm_invoice_def Let_def)
  have amount: "referralAmount (?g ord) = ?a"
    using sub nz by (auto simp: referralAmount_def baseAmount_def truthy_def or_zero_def
                       split: option.splits)
  have o5: "orders_of ?uid ?s5 = [?g ord]"
    by (simp add: orders_of_set_order_working one)
  have id: "u_id user = ?uid" using usr by (rule get_user_Some_id)
  have g4: "get_user ?uid ?s4 = Some (?f user)"
    using usr id by (simp add: get_user_update_user)
  obtain user5 where u5: "get_user ?uid ?s5 = Some user5" and r5: "u_referred_by user5 = Some r"
      and n5: "u_name user5 = u_name user"
    using g4 ref by (simp add: get_user_updateUserLevel)
  have e4: "map_option u_referral_earnings (get_user r ?s4) = Some (u_referral_earnings referrer)"
    using rfr by (simp add: field_update_user)
  have e5: "map_option u_referral_earnings (get_user r ?s5) = Some (u_referral_earnings referrer)"
    using e4 by (simp add: field_updateUserLevel)
  then obtain ref5 where f5: "get_user r ?s5 = Some ref5"
      and fe: "u_referral_earnings ref5 = u_referral_earnings referrer"
    by auto
  have fid: "u_id ref5 = r" using f5 by (rule get_user_Some_id)
  let ?s6a = "set_referral_earnings r ?uid ?a (update_user r ?h ?s5)"
  have g6a: "get_user r ?s6a = Some (?h ref5)"
    using f5 fid by (simp add: get_user_update_user)
  have fires: "processReferralPayment ?uid ?s5 = notify r (Referral_bonus ?a (u_name user5)) ?s6a"
    using processReferralPayment_fires [OF u5 r5 o5] g6a fid
    by (simp add: amount Let_def del: referralAmount_working)
  show ?thesis
    apply (intro conjI)
    subgoal using g6a fe by (simp add: run fires referral_earnings_of_def)
    subgoal
      by (simp add: run fires) (simp add: set_referral_earnings_def)
    done
qed

theorem referral_commission_quarter_of_subtotal_witness:
  "o_subtotal (sample_order ''ORD1'' 2 10 200 30) = Some 200
   \<and> o_discount_amount (sample_order ''ORD1'' 2 10 200 30) = Some 30
   \<and> o_total (sample_order ''ORD1'' 2 10 200 30) = Some 170
   \<and> referral_earnings_of 1 db0 = Some 0
   \<and> referral_earnings_of 1 (snd (confirm_invoice 20 ''INV1'' db0)) = Some 50
   \<and> referrals (snd (confirm_invoice 20 ''INV1'' db0))
        = [\<lparr>r_referrer_id = 1, r_referred_id = 2, r_earnings = 50\<rparr>]"
proof -
  let ?inv = "sample_invoice ''INV1'' ''ORD1'' 2 170"
  let ?ord = "sample_order ''ORD1'' 2 10 200 30"
  have h1: "get_invoice ''INV1'' db0 = Some ?inv"
    by (simp add: get_invoice_def sample_defs)
  have h2: "get_user (i_user_id ?inv) db0 = Some bob"
    by (simp add: get_user_def sample_defs)
  have h3: "u_referred_by bob = Some 1" by (simp add: bob_def)
  have h4: "get_user 1 db0 = Some alice" by (simp add: get_user_def sample_defs)
  have h5: "orders_of (i_user_id ?inv) db0 = [?ord]"
    by (simp add: orders_of_def sample_defs)
  have h6: "o_subtotal ?ord = Some 200" by (simp add: sample_order_def)
  have h7: "(200::rat) \<noteq> 0 \<or> (\<not> truthy (o_base_price ?ord) \<and> \<not> truthy (o_total ?ord))" by simp
  have e: "referral_earnings_of 1 db0 = Some 0"
    by (simp add: referral_earnings_of_def get_user_def sample_defs)
  show ?thesis
    using referral_commission_quarter_of_subtotal [OF h1 h2 h3 h4 h5 h6 h7, of 20] e
    by (simp add: sample_defs)
qed

text \<open>
  C1. Confirm Payment on an invoice that is already paid is meant to change nothing. On the
  store \<open>db1\<close>, where invoice INV1 of 170 has been confirmed once, a second confirmation
  succeeds again, raises Bob's total spent from 170 to 340 and his cashback from 8.5 to 17
  with a second history entry, and raises the referrer's earnings from 50 to 100.
\<close>

theorem confirm_paid_invoice_credits_again:
  "map_option i_status (get_invoice ''INV1'' db1) = Some ''paid''
   \<and> total_spent_of 2 db1 = Some 170 \<and> cashback_of 2 db1 = Some (17 / 2)
   \<and> referral_earnings_of 1 db1 = Some 50
   \<and> fst (confirm_invoice 21 ''INV1'' db1) = Reply 200 Success
   \<and> total_spent_of 2 (snd (confirm_invoice 21 ''INV1'' db1)) = Some 340
   \<and> cashback_of 2 (snd (confirm_invoice 21 ''INV1'' db1)) = Some 17
   \<and> history_of 2 (snd (confirm_invoice 21 ''INV1'' db1)) =
        [\<lparr>h_user_id = 2, h_amount = 17 / 2, h_description = Order_cashback (Some ''ORD1'')\<rparr>,
         \<lparr>h_user_id = 2, h_amount = 17 / 2, h_description = Order_cashback (Some ''ORD1'')\<rparr>]
   \<and> referral_earnings_of 1 (snd (confirm_invoice 21 ''INV1'' db1)) = Some 100"
  by (simp add: db1_eq confirm_defs sample_defs total_spent_of_def cashback_of_def
        referral_earnings_of_def history_of_def)

text \<open>
  The guard of \<open>processReferralPayment\<close>: a confirmation for a user who has no referrer, or
  whose number of orders is not exactly one, changes no referral earnings and no referral row.
\<close>

lemma referral_idle_without_first_order:
  assumes inv: "get_invoice iid s = Some invoice"
      and idle: "length (orders_of (i_user_id invoice) s) \<noteq> 1
                 \<or> get_user (i_user_id invoice) s = None
                 \<or> (\<exists>u. get_user (i_user_id invoice) s = Some u \<and> u_referred_by u = None)"
  shows "(\<forall>j. referral_earnings_of j (snd (confirm_invoice now iid s)) = referral_earnings_of j s)
       \<and> referrals (snd (confirm_invoice now iid s)) = referrals s"
proof -
  let ?uid = "i_user_id invoice"
  let ?f = "\<lambda>u. u\<lparr>u_cashback := u_cashback u + cashbackAmount invoice,
                   u_total_spent := u_total_spent u + i_amount invoice\<rparr>"
  let ?s4 = "add_history ?uid (cashbackAmount invoice) (Order_cashback (i_order_id invoice))
              (update_user ?uid ?f
                (set_order_working (i_tx_hash invoice) (i_order_id invoice)
                  (mark_invoice_paid now iid s)))"
  let ?s5 = "updateUserLevel ?uid ?s4"
  have run: "confirm_invoice now iid s =
      (Reply 200 Success, notify ?uid (Payment_confirmed iid) (processReferralPayment ?uid ?s5))"
    using inv by (simp add: confirm_invoice_def Let_def)
  have len: "length (orders_of ?uid ?s5) = length (orders_of ?uid s)"
    by (simp add: orders_of_set_order_working)
  have rb: "map_option u_referred_by (get_user ?uid ?s5) = map_option u_referred_by (get_user ?uid s)"
    by (simp add: field_updateUserLevel field_update_user)
  have "get_user ?uid ?s5 = None \<or> (\<exists>u. get_user ?uid ?s5 = Some u \<and> u_referred_by u = None)
        \<or> length (orders_of ?uid ?s5) \<noteq> 1"
    using idle rb unfolding len by (cases "get_user ?uid ?s5") auto
  then have still: "processReferralPayment ?uid ?s5 = ?s5"
    by (rule processReferralPayment_idle)
  have e: "map_option u_referral_earnings (get_user j ?s5) = map_option u_referral_earnings (get_user j s)" for j
    by (simp add: field_updateUserLevel field_update_user)
  show ?thesis
    by (simp add: run still referral_earnings_of_def e)
qed

text \<open>
  C5. The referral commission is meant to be paid at most once per referred user. Bob was
  referred by Alice and has exactly one order. Confirming its invoice INV1 pays Alice 50;
  confirming the same invoice once more, while Bob still has one order, pays her 50 again,
  so her earnings stand at 100 and she holds two bonus notifications for the same user.
\<close>

theorem referral_commission_paid_again:
  "length (orders_of 2 db1) = 1
   \<and> referral_earnings_of 1 db0 = Some 0
   \<and> referral_earnings_of 1 db1 = Some 50
   \<and> referral_earnings_of 1 (snd (confirm_invoice 21 ''INV1'' db1)) = Some 100
   \<and> map n_title (filter (\<lambda>n. n_user_id n = 1) (notifications (snd (confirm_invoice 21 ''INV1'' db1))))
        = [Referral_bonus 50 ''Bob'', Referral_bonus 50 ''Bob'']"
  by (simp add: db1_eq confirm_defs sample_defs referral_earnings_of_def)

section \<open>Balances\<close>

text \<open>
  C2. Balances are meant never to go below zero. Alice holds 6 of cashback; an order that
  redeems 10 is accepted and leaves her balance at \<open>- 4\<close>.
\<close>

theorem create_order_overdraws_cashback:
  "cashback_of 1 db0 = Some 6
   \<and> b_cashbackUsed order10 = Some 10
   \<and> fst (create_order 7 ''1001'' order10 db0) = Reply 200 (Success_order ''ORD8'')
   \<and> cashback_of 1 (snd (create_order 7 ''1001'' order10 db0)) = Some (- 4)"
  by (simp add: create_order_def get_user_by_telegram_def new_order_id_def or_null_def
        deduct_used_cashback_def insert_order_def update_user_def add_history_def notify_def
        cashback_of_def get_user_def order10_def order5_def sample_defs Let_def)

text \<open>
  Withdrawal processing does keep the balance it debits at or above zero: it writes the
  larger of zero and the balance less the amount.
\<close>

lemma get_user_complete_withdrawal [simp]:
  "get_user j (complete_withdrawal now wid tx s) = get_user j s"
  by (simp add: get_user_def complete_withdrawal_def)

lemma process_withdrawal_clamps:
  assumes w: "find (\<lambda>w. w_id w = wid) (withdrawals s) = Some withdrawal"
      and p: "w_status withdrawal = ''pending''"
      and u: "get_user (w_user_id withdrawal) s = Some user"
  shows "(w_type withdrawal = ''cashback'' \<longrightarrow>
            cashback_of (w_user_id withdrawal) (snd (process_withdrawal now wid tx s))
              = Some (max 0 (u_cashback user - w_amount withdrawal)))
       \<and> (w_type withdrawal = ''referral'' \<longrightarrow>
            referral_earnings_of (w_user_id withdrawal) (snd (process_withdrawal now wid tx s))
              = Some (max 0 (u_referral_earnings user - w_amount withdrawal)))"
proof -
  have id: "u_id user = w_user_id withdrawal" using u by (rule get_user_Some_id)
  show ?thesis
    using w p u id
    by (simp add: process_withdrawal_def Let_def cashback_of_def referral_earnings_of_def
          get_user_update_user)
qed

text \<open>
  C9. Every increase of the cashback balance is meant to come with a history entry of the
  same amount. The manual adjustment raises Alice's balance from 6 to 16 and appends
  nothing: her history still sums to 6.
\<close>

theorem admin_cashback_leaves_no_history:
  "cashback_of 1 db0 = Some 6
   \<and> sum_list (map h_amount (history_of 1 db0)) = 6
   \<and> fst (admin_cashback 1 (Some 10) db0) = Reply 200 Success
   \<and> cashback_of 1 (snd (admin_cashback 1 (Some 10) db0)) = Some 16
   \<and> history_of 1 (snd (admin_cashback 1 (Some 10) db0)) = history_of 1 db0
   \<and> sum_list (map h_amount (history_of 1 (snd (admin_cashback 1 (Some 10) db0)))) = 6"
  by (simp add: admin_cashback_def update_user_def cashback_of_def get_user_def history_of_def
        sample_defs)

section \<open>Promo redemption\<close>

lemma upper_save10: "toUpperCase ''save10'' = ''SAVE10''"
  by code_simp

text \<open>
  C3. Redemption is meant never to push the use counter past the limit. The code SAVE10
  has a limit of one use. The first redemption sets the counter to 1, after which the
  validity check answers that the code is exhausted; a second redemption is accepted all
  the same, sets the counter to 2 and records a second use.
\<close>

theorem apply_promo_past_limit:
  "p_max_uses save10 = Some 1
   \<and> uses_of ''SAVE10'' db0 = Some 0
   \<and> fst (apply_promo ''save10'' 2 ''ORD1'' db0) = Reply 200 (Promo_applied 10)
   \<and> uses_of ''SAVE10'' (snd (apply_promo ''save10'' 2 ''ORD1'' db0)) = Some 1
   \<and> check_promo 5 ''save10'' (snd (apply_promo ''save10'' 2 ''ORD1'' db0))
        = Reply 200 (Promo_invalid Promo_exhausted)
   \<and> fst (apply_promo ''save10'' 3 ''ORD2'' (snd (apply_promo ''save10'' 2 ''ORD1'' db0)))
        = Reply 200 (Promo_applied 10)
   \<and> uses_of ''SAVE10'' (snd (apply_promo ''save10'' 3 ''ORD2'' (snd (apply_promo ''save10'' 2 ''ORD1'' db0))))
        = Some 2
   \<and> promo_uses (snd (apply_promo ''save10'' 3 ''ORD2'' (snd (apply_promo ''save10'' 2 ''ORD1'' db0))))
        = [\<lparr>pu_promo_id = 1, pu_user_id = 2, pu_order_id = ''ORD1''\<rparr>,
           \<lparr>pu_promo_id = 1, pu_user_id = 3, pu_order_id = ''ORD2''\<rparr>]"
  by (simp add: apply_promo_def check_promo_def find_active_promo_def uses_of_def expired_def
        exhausted_def upper_save10 get_user_def sample_defs Let_def)

text \<open>
  The limit does hold when the redemption follows a validity check that passed on the same
  store: the counter then ends at most at the limit.
\<close>

lemma find_active_after_redemption:
  assumes "find (\<lambda>p. p_code p = c \<and> p_is_active p) ps = Some promo"
  shows "find (\<lambda>p. p_code p = c \<and> p_is_active p)
           (map (\<lambda>p. if p_id p = p_id promo then p\<lparr>p_current_uses := p_current_uses p + 1\<rparr> else p) ps)
         = Some (promo\<lparr>p_current_uses := p_current_uses promo + 1\<rparr>)"
  using assms by (induction ps) (auto split: if_splits)

lemma checked_redemption_within_limit:
  assumes valid: "check_promo now c s = Reply 200 (Promo_valid code d)"
      and promo: "find_active_promo (toUpperCase c) s = Some promo"
      and limit: "p_max_uses promo = Some m" and m: "m \<noteq> 0"
      and user: "get_user user_id s = Some user"
  shows "fst (apply_promo c user_id order_id s) = Reply 200 (Promo_applied (p_discount_percent promo))
       \<and> uses_of (toUpperCase c) (snd (apply_promo c user_id order_id s))
           = Some (p_current_uses promo + 1)
       \<and> p_current_uses promo + 1 \<le> m"
proof -
  have "\<not> exhausted promo"
    using valid promo by (auto simp: check_promo_def split: if_splits)
  then have room: "p_current_uses promo < m"
    using limit m by (simp add: exhausted_def)
  have "uses_of (toUpperCase c) (snd (apply_promo c user_id order_id s))
           = Some (p_current_uses promo + 1)"
    using promo user find_active_after_redemption [of "toUpperCase c" "promo_codes s" promo]
    by (simp add: apply_promo_def uses_of_def find_active_promo_def get_user_def Let_def)
  then show ?thesis
    using promo user room by (simp add: apply_promo_def get_user_def Let_def)
qed

text \<open>
  A redemption that names a user with no row fails on the insert, after the counter has
  been incremented: the answer is an error, no use is recorded and the increment stays.
\<close>

lemma apply_promo_unknown_user:
  assumes promo: "find_active_promo (toUpperCase c) s = Some promo"
      and user: "get_user user_id s = None"
  shows "fst (apply_promo c user_id order_id s) = Reply 500 (Error ''Failed to apply promo code'')
       \<and> promo_uses (snd (apply_promo c user_id order_id s)) = promo_uses s
       \<and> uses_of (toUpperCase c) (snd (apply_promo c user_id order_id s))
           = Some (p_current_uses promo + 1)"
  using promo user find_active_after_redemption [of "toUpperCase c" "promo_codes s" promo]
  by (simp add: apply_promo_def uses_of_def find_active_promo_def get_user_def Let_def)

section \<open>Payment verifier\<close>


lemma check_transfer_confirmed:
  assumes "tx_confirmed tx"
  shows "check_transfer e r tx =
     (if amount_rejected e (fst (transfer_of tx))
      then (200, Unverified (Wrong_amount (or_zero e) (fst (transfer_of tx))))
      else if snd (transfer_of tx) = [] then (200, Unverified No_recipient)
      else if toLowerCase (snd (transfer_of tx)) \<noteq> toLowerCase r
      then (200, Unverified (Wrong_recipient r (snd (transfer_of tx))))
      else (200, Verified (fst (transfer_of tx)) (snd (transfer_of tx)) True (tx_timestamp tx)))"
  using assms by (simp add: check_transfer_def split_beta)




lemma lower_samples:
  "toLowerCase pay_to = ''taxtuqh2zjhks5yzq2zzvdefexs7ktoyuv''"
  "toLowerCase ''taxtuqh2zjhks5yzq2zzvdefexs7ktoyuv'' = ''taxtuqh2zjhks5yzq2zzvdefexs7ktoyuv''"
  "toLowerCase ''TOther'' = ''tother''"
  unfolding pay_to_def by code_simp+

lemma parseInt_samples:
  "parseInt ''0'' = Num 0" "parseInt ''100000000'' = Num 100000000"
  by code_simp+

lemma pay_to_truthy: "or_null (Some pay_to) = Some pay_to"
  by (simp add: or_null_def pay_to_def)

lemma transfer_samples:
  "transfer_of tx_base = (Num 0, [])"
  "transfer_of tx_98 = (Num 98, pay_to)"
  "transfer_of tx_100 = (Num 100, pay_to)"
  "transfer_of tx_zero = (Num 0, pay_to)"
  "transfer_of tx_no_value = (Num 0, pay_to)"
  by (simp_all add: transfer_of_def contract_amount_def contract_to_def truthy_def or_zero_def
        str_truthy_def str_of_def pay_to_truthy parseInt_samples js_div_def or_null_def
        tx_base_def tx_98_def tx_100_def tx_zero_def tx_no_value_def)

lemma req100_facts:
  "str_truthy (vb_txHash req100)" "str_truthy (vb_recipientAddress req100)"
  "str_of (vb_recipientAddress req100) = ''taxtuqh2zjhks5yzq2zzvdefexs7ktoyuv''"
  "vb_expectedAmount req100 = Some 100"
  by (simp_all add: req100_def str_truthy_def str_of_def or_null_def)

lemma tx_facts:
  "tx_code tx_98 = None" "tx_confirmed tx_98" "tx_timestamp tx_98 = Some 1700000000"
  "tx_code tx_100 = None" "tx_confirmed tx_100" "tx_timestamp tx_100 = Some 1700000000"
  "tx_code tx_zero = None" "tx_confirmed tx_zero" "tx_timestamp tx_zero = Some 1700000000"
  "tx_code tx_no_value = None" "tx_confirmed tx_no_value" "tx_timestamp tx_no_value = Some 1700000000"
  "tx_code tx_base = None" "tx_confirmed tx_base"
  by (simp_all add: tx_base_def tx_98_def tx_100_def tx_zero_def tx_no_value_def)

lemma pay_to_not_empty: "pay_to \<noteq> []"
  by (simp add: pay_to_def)





text \<open>
  A payload whose only transfer data is a recipient under \<^verbatim>\<open>trigger_info.parameter\<close>, with
  no amount, yields the amount 0 and that recipient.
\<close>

lemma transfer_of_no_value:
  assumes "\<not> truthy (contract_amount tx)" and "tx_trigger_parameter tx = Some param"
      and "\<not> str_truthy (pm_value param)" and "str_truthy (pm_to param)"
  shows "transfer_of tx = (Num 0, str_of (pm_to param)) \<and> str_of (pm_to param) \<noteq> []"
  using assms by (auto simp: transfer_of_def str_truthy_def str_of_def or_null_def split: option.splits if_splits)

text \<open>
  C10. When the extracted transfer amount is 0 and a recipient can be extracted, the amount
  check is skipped whatever expected amount the request carries: for a confirmed
  transaction the answer depends on the recipient alone, and when the recipient matches it
  is \<open>verified: true\<close> with amount 0.
\<close>

theorem verify_tronscan_skips_amount_check:
  assumes hash: "str_truthy (vb_txHash req)" and rcpt: "str_truthy (vb_recipientAddress req)"
      and found: "tx_code tx \<noteq> Some ''NOT_FOUND''" and conf: "tx_confirmed tx"
      and zero: "fst (transfer_of tx) = Num 0"
      and to: "snd (transfer_of tx) \<noteq> []"
  shows "verify_tronscan (req\<lparr>vb_expectedAmount := expected\<rparr>) (Http_ok (Some tx))
         = (if toLowerCase (snd (transfer_of tx)) = toLowerCase (str_of (vb_recipientAddress req))
            then (200, Verified (Num 0) (snd (transfer_of tx)) True (tx_timestamp tx))
            else (200, Unverified (Wrong_recipient (str_of (vb_recipientAddress req))
                                     (snd (transfer_of tx)))))"
proof -
  have skip: "\<not> amount_rejected expected (fst (transfer_of tx))"
    by (simp add: zero amount_rejected_def positive_def)
  have "verify_tronscan (req\<lparr>vb_expectedAmount := expected\<rparr>) (Http_ok (Some tx))
        = check_transfer expected (str_of (vb_recipientAddress req)) tx"
    using hash rcpt found by (simp add: verify_tronscan_def)
  then show ?thesis
    using skip to zero by (simp add: check_transfer_confirmed [OF conf])
qed

theorem verify_tronscan_skips_amount_check_witness:
  "fst (transfer_of tx_no_value) = Num 0
   \<and> snd (transfer_of tx_no_value) = pay_to
   \<and> vb_expectedAmount (req100\<lparr>vb_expectedAmount := Some 100\<rparr>) = Some 100
   \<and> verify_tronscan (req100\<lparr>vb_expectedAmount := Some 100\<rparr>) (Http_ok (Some tx_no_value))
        = (200, Verified (Num 0) pay_to True (Some 1700000000))"
proof -
  have h3: "tx_code tx_no_value \<noteq> Some ''NOT_FOUND''" by (simp add: tx_facts)
  have h4: "tx_confirmed tx_no_value" by (simp add: tx_facts)
  have h5: "fst (transfer_of tx_no_value) = Num 0" by (simp add: transfer_samples)
  have h6: "snd (transfer_of tx_no_value) \<noteq> []" by (simp add: transfer_samples pay_to_not_empty)
  show ?thesis
    using verify_tronscan_skips_amount_check [OF req100_facts(1,2) h3 h4 h5 h6, of "Some 100"]
    by (simp add: transfer_samples tx_facts req100_facts lower_samples)
qed

section \<open>The earlier variant\<close>

text \<open>
  In the earlier generation of the server an order is rewarded when it is created: the
  total is added to the total spent and the earned cashback to the balance at once, and
  the referrer of a first order receives a quarter of the order's total, not of its base
  price.
\<close>

lemma legacy_create_order_credits_at_once:
  "total_spent_of 1 db0 = Some 0 \<and> cashback_of 1 db0 = Some 6
   \<and> fst (create_order_v1 7 ''1001'' order5 db0) = Reply 200 (Success_order ''ORD9'')
   \<and> total_spent_of 1 (snd (create_order_v1 7 ''1001'' order5 db0)) = Some 35
   \<and> cashback_of 1 (snd (create_order_v1 7 ''1001'' order5 db0)) = Some 3"
  by (simp add: create_order_v1_def get_user_by_telegram_def new_order_id_def or_null_def
        insert_order_v1_def history_v1_def update_user_def add_history_def notify_def
        updateUserLevel_def level_for_def processReferralPayment_v1_def
        cashback_of_def total_spent_of_def get_user_def or_zero_def order5_def sample_defs Let_def)

lemma legacy_referral_quarter_of_total:
  "b_basePrice order5 = 40 \<and> b_total order5 = 35
   \<and> referral_earnings_of 1 db0 = Some 0
   \<and> referral_earnings_of 1 (snd (create_order_v1 7 ''1004'' order5 db0)) = Some (35 / 4)"
  by (simp add: create_order_v1_def get_user_by_telegram_def new_order_id_def or_null_def
        insert_order_v1_def history_v1_def update_user_def add_history_def notify_def
        updateUserLevel_def level_for_def processReferralPayment_v1_def orders_of_def
        referralAmount_v1_def set_referral_earnings_def
        referral_earnings_of_def get_user_def or_zero_def order5_def sample_defs Let_def)

end
